theory Spec2Isabelle
  imports Main
begin

section \<open>JavaScript values\<close>

text \<open>
  The gateway of \<^verbatim>\<open>src/api.js\<close> handles JSON data: request bodies, token claims,
  configuration entries and upstream payloads. A value is one of the JSON shapes, or
  \<^verbatim>\<open>undefined\<close>, or a Node stream (the \<^verbatim>\<open>body\<close> property of a node-fetch response,
  tagged with the text it would deliver). An object lists its own enumerable properties
  in the order \<^verbatim>\<open>Object.keys\<close> enumerates them. Numbers are carried by their integer
  value: the handler only asks for their type, their truthiness and their decimal
  rendering.
\<close>

datatype js_value =
    Undefined
  | Null
  | Bool bool
  | Num int
  | Str string
  | Arr "js_value list"
  | Obj "(string \<times> js_value) list"
  | Stream string

type_synonym js_object = "(string \<times> js_value) list"

text \<open>The \<^verbatim>\<open>typeof\<close> operator.\<close>

fun typeof_js :: "js_value \<Rightarrow> string" where
  "typeof_js Undefined = ''undefined''"
| "typeof_js Null = ''object''"
| "typeof_js (Bool b) = ''boolean''"
| "typeof_js (Num n) = ''number''"
| "typeof_js (Str s) = ''string''"
| "typeof_js (Arr xs) = ''object''"
| "typeof_js (Obj kvs) = ''object''"
| "typeof_js (Stream s) = ''object''"

text \<open>Truthiness, as \<^verbatim>\<open>if (v)\<close>, \<^verbatim>\<open>v || d\<close> and \<^verbatim>\<open>v && w\<close> test it.\<close>

fun truthy :: "js_value \<Rightarrow> bool" where
  "truthy Undefined = False"
| "truthy Null = False"
| "truthy (Bool b) = b"
| "truthy (Num n) = (n \<noteq> 0)"
| "truthy (Str s) = (s \<noteq> [])"
| "truthy (Arr xs) = True"
| "truthy (Obj kvs) = True"
| "truthy (Stream s) = True"

text \<open>\<^verbatim>\<open>Object.keys(o)\<close> and the property read \<^verbatim>\<open>o[k]\<close> of an object; a property that
  is not there reads as \<^verbatim>\<open>undefined\<close>.\<close>

definition object_keys :: "js_object \<Rightarrow> string list" where
  "object_keys obj = map fst obj"

definition get_prop :: "js_object \<Rightarrow> string \<Rightarrow> js_value" where
  "get_prop obj k = (case map_of obj k of None \<Rightarrow> Undefined | Some v \<Rightarrow> v)"

text \<open>Decimal rendering of an integer, and \<^verbatim>\<open>String(v)\<close>.\<close>

definition digit_char :: "nat \<Rightarrow> char" where
  "digit_char d = ''0123456789'' ! d"

fun digits :: "nat \<Rightarrow> string" where
  "digits n = (if n < 10 then [digit_char n] else digits (n div 10) @ [digit_char (n mod 10)])"

definition show_int :: "int \<Rightarrow> string" where
  "show_int i = (if i < 0 then CHR ''-'' # digits (nat (- i)) else digits (nat i))"

fun join_comma :: "string list \<Rightarrow> string" where
  "join_comma [] = []"
| "join_comma [s] = s"
| "join_comma (s # t # ss) = s @ '','' @ join_comma (t # ss)"

fun to_string :: "js_value \<Rightarrow> string" where
  "to_string Undefined = ''undefined''"
| "to_string Null = ''null''"
| "to_string (Bool b) = (if b then ''true'' else ''false'')"
| "to_string (Num n) = show_int n"
| "to_string (Str s) = s"
| "to_string (Arr xs) =
     join_comma (map (\<lambda>v. if v = Undefined \<or> v = Null then [] else to_string v) xs)"
| "to_string (Obj kvs) = ''[object Object]''"
| "to_string (Stream s) = ''[object Object]''"

section \<open>Strings\<close>

text \<open>\<^verbatim>\<open>s.toLowerCase()\<close> on the ASCII letters of a method name.\<close>

definition lower_char :: "char \<Rightarrow> char" where
  "lower_char c =
     (case map_of (zip ''ABCDEFGHIJKLMNOPQRSTUVWXYZ'' ''abcdefghijklmnopqrstuvwxyz'') c of
        Some l \<Rightarrow> l
      | None \<Rightarrow> c)"

definition toLowerCase :: "string \<Rightarrow> string" where
  "toLowerCase s = map lower_char s"

text \<open>\<^verbatim>\<open>s.includes(sub)\<close>: \<^verbatim>\<open>sub\<close> occurs somewhere in \<^verbatim>\<open>s\<close>.\<close>

fun includes_js :: "string \<Rightarrow> string \<Rightarrow> bool" where
  "includes_js [] sub = (sub = [])"
| "includes_js (c # cs) sub = (take (length sub) (c # cs) = sub \<or> includes_js cs sub)"

text \<open>The class \<^verbatim>\<open>\w\<close> of a regular expression without the unicode flag: ASCII
  letters, digits and the underscore.\<close>

definition word_char :: "char \<Rightarrow> bool" where
  "word_char c =
     (let n = (of_char c :: nat) in
        (48 \<le> n \<and> n \<le> 57) \<or> (65 \<le> n \<and> n \<le> 90) \<or> (97 \<le> n \<and> n \<le> 122) \<or> n = 95)"

text \<open>
  \<^verbatim>\<open>reForAttr.exec(endpoint.path)\<close> for \<^verbatim>\<open>reForAttr = /\/users\/:_state_(\w+)/g\<close>, a fresh
  regular expression on every request (so the search starts at index 0): the leftmost
  place where the literal prefix is followed by at least one word character. The result
  is capture group 1, the longest run of word characters there; \<open>None\<close> is \<^verbatim>\<open>null\<close>.
\<close>

fun reForAttr_exec :: "string \<Rightarrow> string option" where
  "reForAttr_exec [] = None"
| "reForAttr_exec (c # cs) =
     (if take 15 (c # cs) = ''/users/:_state_'' \<and> takeWhile word_char (drop 15 (c # cs)) \<noteq> []
      then Some (takeWhile word_char (drop 15 (c # cs)))
      else reForAttr_exec cs)"

text \<open>
  \<^verbatim>\<open>str.replace('', replacement)\<close>: the pattern is the empty string, which is found at
  index 0, so the expanded replacement is put in front of \<^verbatim>\<open>str\<close>. In the replacement,
  \<^verbatim>\<open>$$\<close> stands for a dollar sign, \<^verbatim>\<open>$&\<close> for the matched text (empty), \<^verbatim>\<open>$`\<close> for the
  text before the match (empty) and \<^verbatim>\<open>$'\<close> for the text after it (all of \<^verbatim>\<open>str\<close>); there
  are no capture groups.
\<close>

fun get_substitution :: "string \<Rightarrow> string \<Rightarrow> string" where
  "get_substitution str [] = []"
| "get_substitution str [c] = [c]"
| "get_substitution str (c # d # r) =
     (if c = CHR ''$'' \<and> d = CHR ''$'' then CHR ''$'' # get_substitution str r
      else if c = CHR ''$'' \<and> d = CHR ''&'' then get_substitution str r
      else if c = CHR ''$'' \<and> d = CHR 0x60 then get_substitution str r
      else if c = CHR ''$'' \<and> d = CHR 0x27 then str @ get_substitution str r
      else c # get_substitution str (d # r))"

definition replace_empty :: "string \<Rightarrow> js_value \<Rightarrow> string" where
  "replace_empty str replacement = get_substitution str (to_string replacement) @ str"

section \<open>Configuration and request data\<close>

text \<open>
  An endpoint definition, as \<^verbatim>\<open>config.get("endpoints")\<close> delivers it. The optional members
  are the ones the code reads through \<^verbatim>\<open>?.\<close> or tests for truthiness. An entry of
  \<^verbatim>\<open>body.required\<close> is a mapping such as \<^verbatim>\<open>{name: "string"}\<close> or \<^verbatim>\<open>{age: null}\<close>.
\<close>

record jwt_spec =
  stripFromToken :: "string option"
  signTokenData :: bool

record auth_spec =
  jwt :: "jwt_spec option"

record body_spec =
  required :: "js_object list option"

record endpoint =
  name :: string
  ep_method :: string
  path :: string
  remoteLocation :: string
  remotePath :: string
  timeout :: "nat option"
  auth :: "auth_spec option"
  body :: "body_spec option"
  forwardError :: bool

text \<open>\<^verbatim>\<open>endpoint?.auth?.jwt?.stripFromToken\<close>, \<^verbatim>\<open>endpoint?.auth?.jwt?.signTokenData\<close>,
  \<^verbatim>\<open>endpoint.body?.required\<close> and \<^verbatim>\<open>endpoint.timeout || 300\<close>.\<close>

definition stripFromToken_of :: "endpoint \<Rightarrow> string option" where
  "stripFromToken_of endpoint =
     (case auth endpoint of None \<Rightarrow> None
      | Some a \<Rightarrow> (case jwt a of None \<Rightarrow> None | Some j \<Rightarrow> stripFromToken j))"

definition signTokenData_of :: "endpoint \<Rightarrow> bool" where
  "signTokenData_of endpoint =
     (case auth endpoint of None \<Rightarrow> False
      | Some a \<Rightarrow> (case jwt a of None \<Rightarrow> False | Some j \<Rightarrow> signTokenData j))"

definition required_of :: "endpoint \<Rightarrow> js_object list option" where
  "required_of endpoint = (case body endpoint of None \<Rightarrow> None | Some b \<Rightarrow> required b)"

definition timeout_or_default :: "endpoint \<Rightarrow> nat" where
  "timeout_or_default endpoint =
     (case timeout endpoint of None \<Rightarrow> 300 | Some t \<Rightarrow> if t = 0 then 300 else t)"

text \<open>
  The Koa context, as far as the two route functions read and write it: the response
  status and body they assign (\<open>None\<close>: no body assigned), the request-scoped state
  \<^verbatim>\<open>ctx.state\<close>, the request URL and the body koa-bodyparser parsed (an object).
\<close>

record ctx =
  ctx_status :: int
  ctx_body :: "js_value option"
  ctx_state :: js_object
  request_url :: string
  request_body :: js_object

text \<open>Thrown values.\<close>

datatype js_error =
    TypeError string
  | ReferenceError string
  | AbortError string
  | FetchError string

text \<open>
  The result of \<^verbatim>\<open>regexpOfPath.exec(url)\<close>: \<^verbatim>\<open>null\<close>, or the match array with the matched
  text at index 0 and the groups after it. The compiled expression comes from the
  path-to-regexp package, so it is a parameter of the model.
\<close>

datatype exec_result = NoMatch | Matched string "string option list"

type_synonym regexp = "string \<Rightarrow> exec_result"

section \<open>The upstream call, timers and the log\<close>

text \<open>
  The options object handed to \<^verbatim>\<open>fetch\<close>. \<open>fr_body\<close> is the object given to
  \<^verbatim>\<open>JSON.stringify\<close> (\<open>None\<close>: the options have no \<^verbatim>\<open>body\<close> member); \<open>fr_signal\<close> says
  whether the options carry \<^verbatim>\<open>controller.signal\<close>.
\<close>

record fetch_request =
  fr_url :: string
  fr_method :: string
  fr_body :: "js_object option"
  fr_headers :: "(string \<times> string) list"
  fr_signal :: bool

text \<open>
  A node-fetch response: \<open>res_body\<close> is its \<^verbatim>\<open>body\<close> property, \<open>res_json\<close> what
  \<^verbatim>\<open>.json()\<close> resolves to (\<open>None\<close>: it rejects) and \<open>res_text\<close> what \<^verbatim>\<open>.text()\<close>
  resolves to. \<^verbatim>\<open>response.ok\<close> is the library's test for a status from 200 to 299.
\<close>

record response =
  res_status :: int
  res_statusText :: string
  res_body :: js_value
  res_json :: "js_value option"
  res_text :: string

definition res_ok :: "response \<Rightarrow> bool" where
  "res_ok r = (200 \<le> res_status r \<and> res_status r < 300)"

text \<open>What the upstream does with a call: it never settles, or it settles after so
  many milliseconds, rejecting with an error or resolving with a response.\<close>

datatype upstream_reply = Never | Settles nat "js_error + response"

text \<open>
  The effects of request handling, passed along explicitly: the handles of the armed
  timers and the next fresh handle, how often \<^verbatim>\<open>controller.abort()\<close> ran, the upstream
  calls issued, and the errors given to \<^verbatim>\<open>this.log.publish\<close>.
\<close>

record runtime =
  armed :: "nat list"
  next_timer :: nat
  aborts :: nat
  calls :: "fetch_request list"
  published :: "js_error list"

definition setTimeout :: "runtime \<Rightarrow> nat \<times> runtime" where
  "setTimeout rt =
     (next_timer rt, rt\<lparr>armed := next_timer rt # armed rt, next_timer := Suc (next_timer rt)\<rparr>)"

definition clearTimeout :: "nat \<Rightarrow> runtime \<Rightarrow> runtime" where
  "clearTimeout h rt = rt\<lparr>armed := removeAll h (armed rt)\<rparr>"

text \<open>The timer of the handler fires: it is no longer armed, and its callback runs
  \<^verbatim>\<open>controller.abort()\<close>.\<close>

definition fire :: "nat \<Rightarrow> runtime \<Rightarrow> runtime" where
  "fire h rt = rt\<lparr>armed := removeAll h (armed rt), aborts := Suc (aborts rt)\<rparr>"

text \<open>How a route function ends: it returns, it throws, or it never resumes.\<close>

datatype 'a completion = Returned 'a | Threw js_error | Pending

text \<open>
  \<^verbatim>\<open>await fetch(url, options)\<close> while timer \<open>h\<close> with delay \<open>d\<close> is armed. The call is
  recorded. If the upstream has not settled when the delay is over, the timer fires.
  node-fetch rejects an aborted call with an \<^verbatim>\<open>AbortError\<close> only when the options carry
  the controller's signal; without it the abort reaches nothing and the call goes on.
  Reading the response body is taken to be immediate.
\<close>

definition await_fetch ::
  "(fetch_request \<Rightarrow> upstream_reply) \<Rightarrow> fetch_request \<Rightarrow> nat \<Rightarrow> nat \<Rightarrow> runtime
     \<Rightarrow> response completion \<times> runtime" where
  "await_fetch upstream req h d rt =
     (let rt1 = rt\<lparr>calls := calls rt @ [req]\<rparr> in
      case upstream req of
        Never \<Rightarrow>
          if fr_signal req then (Threw (AbortError ''The user aborted a request.''), fire h rt1)
          else (Pending, fire h rt1)
      | Settles t out \<Rightarrow>
          if d < t then
            (if fr_signal req then (Threw (AbortError ''The user aborted a request.''), fire h rt1)
             else (case out of Inl e \<Rightarrow> (Threw e, fire h rt1) | Inr r \<Rightarrow> (Returned r, fire h rt1)))
          else (case out of Inl e \<Rightarrow> (Threw e, rt1) | Inr r \<Rightarrow> (Returned r, rt1)))"

section \<open>The auth middleware\<close>

text \<open>
  Modelled from the spec: the authenticator \<^verbatim>\<open>./lib/auth/index.js\<close> is not among the
  sources. Its interface is \<^verbatim>\<open>enforce(request, endpointAuthConfig, globalAuthConfig)\<close>,
  which yields the claims or fails with a status and a message; it is a parameter of
  the model, as is the global \<^verbatim>\<open>auth\<close> configuration handed to it.
\<close>

record auth_error =
  ae_status :: int
  ae_message :: js_value

type_synonym 'cfg authenticator = "ctx \<Rightarrow> endpoint \<Rightarrow> 'cfg \<Rightarrow> auth_error + js_object"

text \<open>\<^verbatim>\<open>o[k] = v\<close> on an object.\<close>

fun set_prop :: "js_object \<Rightarrow> string \<Rightarrow> js_value \<Rightarrow> js_object" where
  "set_prop [] k v = [(k, v)]"
| "set_prop ((k', v') # kvs) k v = (if k' = k then (k, v) # kvs else (k', v') # set_prop kvs k v)"

text \<open>The loop \<^verbatim>\<open>Object.keys(tokenPayload).forEach(key => ...)\<close> over the keys still to
  visit: the key equal to \<^verbatim>\<open>stripFromToken\<close> is copied into the state.\<close>

fun strip_keys :: "string \<Rightarrow> js_object \<Rightarrow> string list \<Rightarrow> js_object \<Rightarrow> js_object" where
  "strip_keys strip tokenPayload [] st = st"
| "strip_keys strip tokenPayload (key # keys) st =
     strip_keys strip tokenPayload keys
       (if key = strip then set_prop st strip (get_prop tokenPayload key) else st)"

text \<open>
  The first route function (lines 126 to 156). \<open>Inl\<close>: it answered and returned without
  calling \<^verbatim>\<open>next\<close>; \<open>Inr\<close>: it went on to \<^verbatim>\<open>next()\<close> with this context. The variable
  \<^verbatim>\<open>tokenPayload\<close> is initialised to \<^verbatim>\<open>null\<close> and assigned nowhere: what
  \<^verbatim>\<open>enforceAuth\<close> resolves to is not kept.
\<close>

definition auth_middleware :: "'cfg authenticator \<Rightarrow> 'cfg \<Rightarrow> endpoint \<Rightarrow> ctx \<Rightarrow> ctx + ctx" where
  "auth_middleware enforceAuth authConfig endpoint c =
     (let tokenPayload = (None :: js_object option) in
      if auth endpoint \<noteq> None then
        (case enforceAuth c endpoint authConfig of
           Inl authError \<Rightarrow>
             Inl (c\<lparr>ctx_status := ae_status authError,
                    ctx_body := Some (if truthy (ae_message authError) then ae_message authError
                                      else Obj [])\<rparr>)
         | Inr claims \<Rightarrow>
             (case (stripFromToken_of endpoint, tokenPayload) of
                (Some s, Some payload) \<Rightarrow>
                  if s \<noteq> [] then Inr (c\<lparr>ctx_state := strip_keys s payload (object_keys payload) (ctx_state c)\<rparr>)
                  else Inr c
              | _ \<Rightarrow> Inr c))
      else Inr c)"

section \<open>The forwarding handler\<close>

text \<open>
  Path resolution (lines 160 to 184). With a match and a template that includes
  \<^verbatim>\<open>:_state_\<close>, the code reads index 1 of the result of \<^verbatim>\<open>reForAttr.exec\<close>, which throws a
  \<^verbatim>\<open>TypeError\<close> when that result is \<^verbatim>\<open>null\<close>; otherwise it calls
  \<^verbatim>\<open>endpoint.path.replace('', ctx.state[...])\<close>.
\<close>

definition resolve_remotePath :: "regexp \<Rightarrow> endpoint \<Rightarrow> ctx \<Rightarrow> js_error + string" where
  "resolve_remotePath regexpOfPath endpoint c =
     (case regexpOfPath (request_url c) of
        Matched m groups \<Rightarrow>
          if includes_js (path endpoint) '':_state_'' then
            (case reForAttr_exec (path endpoint) of
               None \<Rightarrow> Inl (TypeError ''Cannot read properties of null'')
             | Some stateAttributeToAttach \<Rightarrow>
                 Inr (remoteLocation endpoint
                      @ replace_empty (path endpoint) (get_prop (ctx_state c) stateAttributeToAttach)))
          else Inr (remoteLocation endpoint @ m)
      | NoMatch \<Rightarrow> Inr (remoteLocation endpoint @ remotePath endpoint))"

text \<open>
  The loop over \<^verbatim>\<open>requiredParams\<close> (lines 208 to 229), with \<^verbatim>\<open>matchedParams\<close> as the
  accumulator. \<^verbatim>\<open>paramKey\<close> is the first key of the entry (\<^verbatim>\<open>undefined\<close> for an entry
  without keys, which \<^verbatim>\<open>indexOf\<close> never finds among the body's keys).
\<close>

fun count_matched :: "js_object list \<Rightarrow> js_object \<Rightarrow> nat \<Rightarrow> nat" where
  "count_matched [] bodyParams matchedParams = matchedParams"
| "count_matched (r # rs) bodyParams matchedParams =
     count_matched rs bodyParams
       (case object_keys r of
          [] \<Rightarrow> matchedParams
        | paramKey # _ \<Rightarrow>
            (let paramVal = get_prop r paramKey in
             if paramKey \<in> set (object_keys bodyParams) then
               (if truthy paramVal then
                  (if Str (typeof_js (get_prop bodyParams paramKey)) = paramVal
                   then Suc matchedParams else matchedParams)
                else Suc matchedParams)
             else matchedParams))"

definition body_rejected :: "endpoint \<Rightarrow> ctx \<Rightarrow> bool" where
  "body_rejected endpoint c =
     (case required_of endpoint of
        None \<Rightarrow> False
      | Some requiredParams \<Rightarrow>
          count_matched requiredParams (request_body c) 0 < length requiredParams)"

text \<open>
  \<^verbatim>\<open>signJwtToken(data)\<close>: the file neither declares nor imports \<^verbatim>\<open>signJwtToken\<close> (only
  \<^verbatim>\<open>enforceAuth\<close> is taken from the auth module), so evaluating the call throws.
\<close>

definition signJwtToken :: "js_value \<Rightarrow> js_error + js_value" where
  "signJwtToken data = Inl (ReferenceError ''signJwtToken is not defined'')"

text \<open>The relay of a settled response (lines 255 to 282).\<close>

definition relay :: "endpoint \<Rightarrow> response \<Rightarrow> ctx \<Rightarrow> js_error + ctx" where
  "relay endpoint r c =
     (if res_ok r then
        (let data = (case res_json r of Some v \<Rightarrow> v | None \<Rightarrow> Str (res_text r)) in
         case (if signTokenData_of endpoint then signJwtToken data else Inr data) of
           Inl e \<Rightarrow> Inl e
         | Inr returnData \<Rightarrow>
             (let c1 = c\<lparr>ctx_status := res_status r\<rparr> in
              if truthy returnData then Inr (c1\<lparr>ctx_body := Some returnData\<rparr>) else Inr c1))
      else
        (let c1 = c\<lparr>ctx_status := res_status r\<rparr> in
         if forwardError endpoint then Inr c1
         else Inr (c1\<lparr>ctx_body :=
                Some (Obj [(''status'', Str (res_statusText r)), (''text'', res_body r)])\<rparr>)))"

definition relay_settled ::
  "endpoint \<Rightarrow> ctx \<Rightarrow> response completion \<times> runtime \<Rightarrow> ctx completion \<times> runtime" where
  "relay_settled endpoint c settled =
     (case settled of
        (Returned r, rt) \<Rightarrow>
          (case relay endpoint r c of Inl e \<Rightarrow> (Threw e, rt) | Inr c' \<Rightarrow> (Returned c', rt))
      | (Threw e, rt) \<Rightarrow> (Threw e, rt)
      | (Pending, rt) \<Rightarrow> (Pending, rt))"

text \<open>
  The \<^verbatim>\<open>try\<close> block (lines 193 to 282). \<open>m\<close> is the lower-cased method: exactly one of
  the two method tests can hold, and with neither \<^verbatim>\<open>response\<close> stays undefined, so
  reading \<^verbatim>\<open>response.ok\<close> throws. The options of both \<^verbatim>\<open>fetch\<close> calls have the members
  \<^verbatim>\<open>method\<close>, \<^verbatim>\<open>headers\<close> and, for the first, \<^verbatim>\<open>body\<close>; neither has \<^verbatim>\<open>signal\<close>.
\<close>

definition try_block ::
  "(fetch_request \<Rightarrow> upstream_reply) \<Rightarrow> endpoint \<Rightarrow> string \<Rightarrow> string \<Rightarrow> nat \<Rightarrow> ctx \<Rightarrow> runtime
     \<Rightarrow> ctx completion \<times> runtime" where
  "try_block upstream endpoint m remotePath' h c rt =
     (let commonHeaders = [(''Content-Type'', ''application/json'')] in
      if m = ''post'' \<or> m = ''put'' \<or> m = ''patch'' then
        (if body_rejected endpoint c then
           (Returned (c\<lparr>ctx_status := 403,
                        ctx_body := Some (Str ''Request missing expected body parameters'')\<rparr>), rt)
         else
           relay_settled endpoint c
             (await_fetch upstream
                \<lparr>fr_url = remotePath', fr_method = ep_method endpoint,
                 fr_body = Some (request_body c), fr_headers = commonHeaders, fr_signal = False\<rparr>
                h (timeout_or_default endpoint) rt))
      else if m = ''get'' \<or> m = ''delete'' then
        relay_settled endpoint c
          (await_fetch upstream
             \<lparr>fr_url = remotePath', fr_method = ep_method endpoint,
              fr_body = None, fr_headers = commonHeaders, fr_signal = False\<rparr>
             h (timeout_or_default endpoint) rt)
      else (Threw (TypeError ''Cannot read properties of undefined''), rt))"

text \<open>
  The \<^verbatim>\<open>catch\<close> and \<^verbatim>\<open>finally\<close> clauses (lines 284 to 289) around what the \<^verbatim>\<open>try\<close> block
  did: a thrown error sets status 500 and is published; the timer is cleared on the way
  out, after a return from inside the block as well. Nothing in the block changes the
  context before it throws, so the \<^verbatim>\<open>catch\<close> clause works on the context \<open>c\<close> the
  handler was given.
\<close>

definition catch_finally ::
  "nat \<Rightarrow> ctx \<Rightarrow> ctx completion \<times> runtime \<Rightarrow> ctx completion \<times> runtime" where
  "catch_finally h c tried =
     (case tried of
        (Returned c', rt2) \<Rightarrow> (Returned c', clearTimeout h rt2)
      | (Threw e, rt2) \<Rightarrow>
          (Returned (c\<lparr>ctx_status := 500\<rparr>),
           clearTimeout h (rt2\<lparr>published := published rt2 @ [e]\<rparr>))
      | (Pending, rt2) \<Rightarrow> (Pending, rt2))"

text \<open>
  The second route function (lines 158 to 290): path resolution, outside the \<^verbatim>\<open>try\<close>;
  then the timer is armed; then the \<^verbatim>\<open>try\<close> block with its \<^verbatim>\<open>catch\<close> and \<^verbatim>\<open>finally\<close>.
\<close>

definition handler ::
  "(fetch_request \<Rightarrow> upstream_reply) \<Rightarrow> regexp \<Rightarrow> endpoint \<Rightarrow> ctx \<Rightarrow> runtime
     \<Rightarrow> ctx completion \<times> runtime" where
  "handler upstream regexpOfPath endpoint c rt =
     (case resolve_remotePath regexpOfPath endpoint c of
        Inl e \<Rightarrow> (Threw e, rt)
      | Inr remotePath' \<Rightarrow>
          (case setTimeout rt of
             (h, rt1) \<Rightarrow>
               catch_finally h c
                 (try_block upstream endpoint (toLowerCase (ep_method endpoint)) remotePath' h c rt1)))"

text \<open>A request through both route functions.\<close>

definition dispatch ::
  "'cfg authenticator \<Rightarrow> 'cfg \<Rightarrow> (fetch_request \<Rightarrow> upstream_reply) \<Rightarrow> regexp \<Rightarrow> endpoint \<Rightarrow> ctx
     \<Rightarrow> runtime \<Rightarrow> ctx completion \<times> runtime" where
  "dispatch enforceAuth authConfig upstream regexpOfPath endpoint c rt =
     (case auth_middleware enforceAuth authConfig endpoint c of
        Inl c' \<Rightarrow> (Returned c', rt)
      | Inr c' \<Rightarrow> handler upstream regexpOfPath endpoint c' rt)"

section \<open>Loading the endpoints\<close>

text \<open>
  The loop \<^verbatim>\<open>endpoints.forEach\<close> of the constructor (lines 113 to 291). Per endpoint it
  lower-cases the method, compiles the path with \<^verbatim>\<open>pathToRegexp\<close> (which throws on a
  malformed template) and calls \<^verbatim>\<open>router[method]\<close> with the name, the path and the two
  route functions, which throws a \<^verbatim>\<open>TypeError\<close> when the router has no such verb.
  \<^verbatim>\<open>pathToRegexp\<close> and the router's verbs belong to packages outside the sources and are
  parameters. The router appends a layer per call.
\<close>

record layer =
  layer_name :: string
  layer_verb :: string
  layer_path :: string
  layer_regexp :: regexp
  layer_endpoint :: endpoint

definition register_endpoint ::
  "(string \<Rightarrow> js_error + regexp) \<Rightarrow> string list \<Rightarrow> endpoint \<Rightarrow> layer list \<Rightarrow> js_error + layer list" where
  "register_endpoint pathToRegexp verbs endpoint router =
     (let m = toLowerCase (ep_method endpoint) in
      case pathToRegexp (path endpoint) of
        Inl e \<Rightarrow> Inl e
      | Inr regexpOfPath \<Rightarrow>
          if m \<in> set verbs then
            Inr (router @ [\<lparr>layer_name = name endpoint, layer_verb = m, layer_path = path endpoint,
                            layer_regexp = regexpOfPath, layer_endpoint = endpoint\<rparr>])
          else Inl (TypeError ''router[method] is not a function''))"

fun load_endpoints ::
  "(string \<Rightarrow> js_error + regexp) \<Rightarrow> string list \<Rightarrow> endpoint list \<Rightarrow> layer list \<Rightarrow> js_error + layer list" where
  "load_endpoints pathToRegexp verbs [] router = Inr router"
| "load_endpoints pathToRegexp verbs (endpoint # endpoints) router =
     (case register_endpoint pathToRegexp verbs endpoint router of
        Inl e \<Rightarrow> Inl e
      | Inr router' \<Rightarrow> load_endpoints pathToRegexp verbs endpoints router')"

section \<open>Notions the claims are stated with\<close>

text \<open>
  A path template holds a segment of the form \<^verbatim>\<open>/users/:_state_<word>\<close>: the literal
  prefix followed by a non-empty run of word characters.
\<close>

definition has_users_state_segment :: "string \<Rightarrow> bool" where
  "has_users_state_segment p =
     (\<exists>pre w suf. p = pre @ ''/users/:_state_'' @ w @ suf \<and> w \<noteq> [] \<and> (\<forall>ch\<in>set w. word_char ch))"

text \<open>
  A required entry \<^verbatim>\<open>{key: expectedType}\<close> is satisfied by a request body: the key is
  among the body's keys and, when a type name is given (the entry's value is truthy),
  the \<^verbatim>\<open>typeof\<close> the body's value equals it. An entry without a key is never satisfied.
\<close>

definition entry_satisfied :: "js_object \<Rightarrow> js_object \<Rightarrow> bool" where
  "entry_satisfied bodyParams r =
     (case r of
        [] \<Rightarrow> False
      | (k, t) # _ \<Rightarrow>
          k \<in> fst ` set bodyParams \<and> (truthy t \<longrightarrow> t = Str (typeof_js (get_prop bodyParams k))))"

text \<open>Timer handles are handed out in increasing order: every armed handle is below
  the next fresh one.\<close>

definition timers_fresh :: "runtime \<Rightarrow> bool" where
  "timers_fresh rt = (\<forall>h\<in>set (armed rt). h < next_timer rt)"

text \<open>Repeated calls: requests, each with the route it matched, handled one after the
  other on the same runtime.\<close>

fun serve_all ::
  "'cfg authenticator \<Rightarrow> 'cfg \<Rightarrow> (fetch_request \<Rightarrow> upstream_reply) \<Rightarrow> (layer \<times> ctx) list \<Rightarrow> runtime
     \<Rightarrow> runtime" where
  "serve_all enforceAuth authConfig upstream [] rt = rt"
| "serve_all enforceAuth authConfig upstream ((l, c) # rest) rt =
     serve_all enforceAuth authConfig upstream rest
       (snd (dispatch enforceAuth authConfig upstream (layer_regexp l) (layer_endpoint l) c rt))"

section \<open>Sample data\<close>

text \<open>
  Concrete configurations, requests and collaborators on which the theorems below are
  run: a compiled expression that matches every URL as a whole, a stand-in for
  \<^verbatim>\<open>pathToRegexp\<close> on templates without parameters (every template compiles and matches
  exactly itself), the five verbs the configuration may name, an authenticator that
  accepts with given claims and one that fails with a given status and message, and
  upstreams that answer after 20 and after 1000 milliseconds.
\<close>

definition match_whole :: regexp where
  "match_whole url = Matched url []"

definition compile_literal :: "string \<Rightarrow> js_error + regexp" where
  "compile_literal template = Inr (\<lambda>url. if url = template then Matched url [] else NoMatch)"

definition five_verbs :: "string list" where
  "five_verbs = [''get'', ''post'', ''put'', ''patch'', ''delete'']"

definition blank_ctx :: ctx where
  "blank_ctx =
     \<lparr>ctx_status = 404, ctx_body = None, ctx_state = [], request_url = ''/'', request_body = []\<rparr>"

definition idle :: runtime where
  "idle = \<lparr>armed = [], next_timer = 0, aborts = 0, calls = [], published = []\<rparr>"

definition accept_with :: "js_object \<Rightarrow> unit authenticator" where
  "accept_with claims c endpoint authConfig = Inr claims"

definition reject_with :: "int \<Rightarrow> js_value \<Rightarrow> unit authenticator" where
  "reject_with st msg c endpoint authConfig = Inl \<lparr>ae_status = st, ae_message = msg\<rparr>"

definition users_endpoint :: endpoint where
  "users_endpoint =
     \<lparr>name = ''user'', ep_method = ''GET'', path = ''/users/:_state_userId'',
      remoteLocation = ''http://users.internal'', remotePath = ''/users'', timeout = None,
      auth = Some \<lparr>jwt = Some \<lparr>stripFromToken = Some ''userId'', signTokenData = False\<rparr>\<rparr>,
      body = None, forwardError = False\<rparr>"

definition orders_endpoint :: endpoint where
  "orders_endpoint =
     \<lparr>name = ''orders'', ep_method = ''GET'', path = ''/orders'',
      remoteLocation = ''http://orders.internal'', remotePath = ''/orders'', timeout = Some 300,
      auth = None, body = None, forwardError = False\<rparr>"

definition signup_endpoint :: endpoint where
  "signup_endpoint =
     \<lparr>name = ''signup'', ep_method = ''POST'', path = ''/people'',
      remoteLocation = ''http://people.internal'', remotePath = ''/people'', timeout = None,
      auth = None,
      body = Some \<lparr>required = Some [[(''name'', Str ''string'')], [(''age'', Null)]]\<rparr>,
      forwardError = False\<rparr>"

definition slow_upstream :: "response \<Rightarrow> fetch_request \<Rightarrow> upstream_reply" where
  "slow_upstream r req = Settles 1000 (Inr r)"

definition quick_upstream :: "response \<Rightarrow> fetch_request \<Rightarrow> upstream_reply" where
  "quick_upstream r req = Settles 20 (Inr r)"

definition ok_response :: response where
  "ok_response =
     \<lparr>res_status = 200, res_statusText = ''OK'', res_body = Stream ''[1,2,3]'',
      res_json = Some (Arr [Num 1, Num 2, Num 3]), res_text = ''[1,2,3]''\<rparr>"

definition not_found_response :: response where
  "not_found_response =
     \<lparr>res_status = 404, res_statusText = ''Not Found'', res_body = Stream ''no such order'',
      res_json = None, res_text = ''no such order''\<rparr>"

text \<open>A second definition of the orders route, with the same method and path, and an
  endpoint whose state token is not under \<^verbatim>\<open>/users/\<close>.\<close>

definition orders_twin :: endpoint where
  "orders_twin = orders_endpoint\<lparr>name := ''orders-again'', remoteLocation := ''http://other.internal''\<rparr>"

definition state_orders_endpoint :: endpoint where
  "state_orders_endpoint =
     \<lparr>name = ''my-orders'', ep_method = ''GET'', path = ''/orders/:_state_orderId'',
      remoteLocation = ''http://orders.internal'', remotePath = ''/orders'', timeout = None,
      auth = None, body = None, forwardError = False\<rparr>"

text \<open>The route of a sample endpoint, and an upstream that answers the orders service
  late, the people service with 404 and refuses every other connection.\<close>

definition route_of :: "endpoint \<Rightarrow> layer" where
  "route_of endpoint =
     \<lparr>layer_name = name endpoint, layer_verb = toLowerCase (ep_method endpoint),
      layer_path = path endpoint, layer_regexp = match_whole, layer_endpoint = endpoint\<rparr>"

definition mixed_upstream :: "fetch_request \<Rightarrow> upstream_reply" where
  "mixed_upstream req =
     (if fr_url req = ''http://orders.internal/orders'' then Settles 1000 (Inr ok_response)
      else if fr_url req = ''http://people.internal/people'' then Settles 20 (Inr not_found_response)
      else Settles 5 (Inl (FetchError ''connect ECONNREFUSED'')))"

section \<open>The state-token expression\<close>

lemma takeWhile_word_nonempty:
  "w \<noteq> [] \<Longrightarrow> \<forall>ch\<in>set w. word_char ch \<Longrightarrow> takeWhile word_char (w @ suf) \<noteq> []"
  by (cases w) auto

lemma reForAttr_exec_here:
  "takeWhile word_char rest \<noteq> [] \<Longrightarrow> reForAttr_exec (''/users/:_state_'' @ rest) \<noteq> None"
  by simp

lemma reForAttr_exec_step:
  "reForAttr_exec cs \<noteq> None \<Longrightarrow> reForAttr_exec (c # cs) \<noteq> None"
  by (simp only: reForAttr_exec.simps split: if_split) (simp only: option.distinct not_False_eq_True simp_thms)

lemma reForAttr_exec_skip:
  "\<not> (take 15 (c # cs) = ''/users/:_state_'' \<and> takeWhile word_char (drop 15 (c # cs)) \<noteq> [])
   \<Longrightarrow> reForAttr_exec (c # cs) = reForAttr_exec cs"
  by (simp only: reForAttr_exec.simps if_False)

lemma reForAttr_exec_finds:
  assumes "w \<noteq> []" and "\<forall>ch\<in>set w. word_char ch"
  shows "reForAttr_exec (pre @ ''/users/:_state_'' @ w @ suf) \<noteq> None"
proof (induction pre)
  case Nil
  have "takeWhile word_char (w @ suf) \<noteq> []"
    using assms by (rule takeWhile_word_nonempty)
  then have "reForAttr_exec (''/users/:_state_'' @ w @ suf) \<noteq> None"
    by (rule reForAttr_exec_here)
  then show ?case by (simp only: append_Nil not_False_eq_True)
next
  case (Cons a pre)
  then have "reForAttr_exec (a # (pre @ ''/users/:_state_'' @ w @ suf)) \<noteq> None"
    by (rule reForAttr_exec_step)
  then show ?case by (simp only: append_Cons not_False_eq_True)
qed

lemma reForAttr_exec_sound:
  "reForAttr_exec p = Some a \<Longrightarrow> has_users_state_segment p"
proof (induction p)
  case Nil
  then show ?case by simp
next
  case (Cons c cs)
  show ?case
  proof (cases "take 15 (c # cs) = ''/users/:_state_'' \<and> takeWhile word_char (drop 15 (c # cs)) \<noteq> []")
    case True
    define w where "w = takeWhile word_char (drop 15 (c # cs))"
    define suf where "suf = dropWhile word_char (drop 15 (c # cs))"
    have "c # cs = take 15 (c # cs) @ drop 15 (c # cs)"
      by (simp only: append_take_drop_id)
    also have "\<dots> = ''/users/:_state_'' @ w @ suf"
      using True by (simp only: w_def suf_def takeWhile_dropWhile_id)
    finally have split: "c # cs = [] @ ''/users/:_state_'' @ w @ suf"
      by (simp only: append_Nil)
    have nonempty: "w \<noteq> []" using True by (simp only: w_def not_False_eq_True)
    have wordy: "\<forall>ch\<in>set w. word_char ch"
      unfolding w_def by (auto dest: set_takeWhileD)
    have "\<exists>pre w suf. c # cs = pre @ ''/users/:_state_'' @ w @ suf \<and> w \<noteq> [] \<and> (\<forall>ch\<in>set w. word_char ch)"
      using split nonempty wordy by blast
    then show ?thesis
      by (simp only: has_users_state_segment_def)
  next
    case False
    then have "reForAttr_exec (c # cs) = reForAttr_exec cs"
      by (rule reForAttr_exec_skip)
    with Cons.prems have "reForAttr_exec cs = Some a" by (simp only:)
    then have "has_users_state_segment cs" by (rule Cons.IH)
    then obtain pre w suf where
      eq: "cs = pre @ ''/users/:_state_'' @ w @ suf" and nonempty: "w \<noteq> []"
      and wordy: "\<forall>ch\<in>set w. word_char ch"
      unfolding has_users_state_segment_def by blast
    have "c # cs = (c # pre) @ ''/users/:_state_'' @ w @ suf"
      by (simp only: eq append_Cons)
    then have "\<exists>pre w suf. c # cs = pre @ ''/users/:_state_'' @ w @ suf \<and> w \<noteq> [] \<and> (\<forall>ch\<in>set w. word_char ch)"
      using nonempty wordy by blast
    then show ?thesis
      by (simp only: has_users_state_segment_def)
  qed
qed

lemma reForAttr_exec_None_iff:
  "reForAttr_exec p = None \<longleftrightarrow> \<not> has_users_state_segment p"
proof
  assume none: "reForAttr_exec p = None"
  show "\<not> has_users_state_segment p"
  proof
    assume "has_users_state_segment p"
    then obtain pre w suf where
      eq: "p = pre @ ''/users/:_state_'' @ w @ suf" and nonempty: "w \<noteq> []"
      and wordy: "\<forall>ch\<in>set w. word_char ch"
      unfolding has_users_state_segment_def by blast
    have "reForAttr_exec p \<noteq> None"
      unfolding eq using nonempty wordy by (rule reForAttr_exec_finds)
    then show False using none by (rule notE)
  qed
next
  assume "\<not> has_users_state_segment p"
  then show "reForAttr_exec p = None"
    using reForAttr_exec_sound by (cases "reForAttr_exec p") auto
qed

section \<open>Counting the satisfied entries\<close>

lemma entry_counted:
  "(case object_keys r of
      [] \<Rightarrow> m
    | paramKey # _ \<Rightarrow>
        (let paramVal = get_prop r paramKey in
         if paramKey \<in> set (object_keys b) then
           (if truthy paramVal then
              (if Str (typeof_js (get_prop b paramKey)) = paramVal then Suc m else m)
            else Suc m)
         else m)) = (if entry_satisfied b r then Suc m else m)"
proof (cases r)
  case Nil
  then show ?thesis by (simp add: object_keys_def entry_satisfied_def)
next
  case (Cons kt rest)
  obtain k t where kt: "kt = (k, t)" by (cases kt)
  show ?thesis
    unfolding Cons kt by (simp add: object_keys_def get_prop_def entry_satisfied_def Let_def eq_commute)
qed

lemma count_matched_filter:
  "count_matched rs b m = m + length (filter (entry_satisfied b) rs)"
proof (induction rs arbitrary: m)
  case Nil
  then show ?case by simp
next
  case (Cons r rs)
  show ?case
    by (simp only: count_matched.simps entry_counted Cons.IH) simp
qed

lemma body_rejected_iff:
  "required_of ep = Some reqs \<Longrightarrow>
   body_rejected ep c \<longleftrightarrow> length (filter (entry_satisfied (request_body c)) reqs) < length reqs"
  by (simp add: body_rejected_def count_matched_filter)

section \<open>Effects of the forwarding stage\<close>

lemma await_fetch_calls:
  "calls (snd (await_fetch upstream req h d rt)) = calls rt @ [req]"
  by (simp add: await_fetch_def fire_def Let_def split: upstream_reply.splits sum.splits)

lemma await_fetch_published:
  "published (snd (await_fetch upstream req h d rt)) = published rt"
  by (simp add: await_fetch_def fire_def Let_def split: upstream_reply.splits sum.splits)

lemma await_fetch_next_timer:
  "next_timer (snd (await_fetch upstream req h d rt)) = next_timer rt"
  by (simp add: await_fetch_def fire_def Let_def split: upstream_reply.splits sum.splits)

lemma await_fetch_armed:
  "removeAll h (armed (snd (await_fetch upstream req h d rt))) = removeAll h (armed rt)"
  by (simp add: await_fetch_def fire_def Let_def split: upstream_reply.splits sum.splits)

lemma await_fetch_pending:
  "fst (await_fetch upstream req h d rt) = Pending \<Longrightarrow>
   armed (snd (await_fetch upstream req h d rt)) = removeAll h (armed rt)"
  by (simp add: await_fetch_def fire_def Let_def split: upstream_reply.splits sum.splits if_splits)

lemma relay_settled_snd: "snd (relay_settled endpoint c settled) = snd settled"
  by (simp add: relay_settled_def split: prod.splits completion.splits sum.splits)

lemma relay_settled_pending:
  "fst (relay_settled endpoint c settled) = Pending \<longleftrightarrow> fst settled = Pending"
  by (simp add: relay_settled_def split: prod.splits completion.splits sum.splits)

lemma try_block_armed:
  "removeAll h (armed (snd (try_block upstream endpoint m url h c rt))) = removeAll h (armed rt)"
  by (simp add: try_block_def Let_def relay_settled_snd await_fetch_armed)

lemma try_block_pending:
  "fst (try_block upstream endpoint m url h c rt) = Pending \<Longrightarrow>
   armed (snd (try_block upstream endpoint m url h c rt)) = removeAll h (armed rt)"
  by (auto simp: try_block_def Let_def relay_settled_snd relay_settled_pending await_fetch_pending
      split: if_splits)

lemma try_block_next_timer:
  "next_timer (snd (try_block upstream endpoint m url h c rt)) = next_timer rt"
  by (simp add: try_block_def Let_def relay_settled_snd await_fetch_next_timer)

lemma catch_finally_armed:
  "armed (snd (catch_finally h c tried)) =
     (if fst tried = Pending then armed (snd tried) else removeAll h (armed (snd tried)))"
  by (simp add: catch_finally_def clearTimeout_def split: prod.splits completion.splits)

lemma catch_finally_next_timer:
  "next_timer (snd (catch_finally h c tried)) = next_timer (snd tried)"
  by (simp add: catch_finally_def clearTimeout_def split: prod.splits completion.splits)

lemma catch_finally_calls:
  "calls (snd (catch_finally h c tried)) = calls (snd tried)"
  by (simp add: catch_finally_def clearTimeout_def split: prod.splits completion.splits)

lemma removeAll_fresh: "timers_fresh rt \<Longrightarrow> removeAll (next_timer rt) (armed rt) = armed rt"
  by (auto simp: timers_fresh_def)

lemma handler_armed:
  assumes "timers_fresh rt"
  shows "armed (snd (handler upstream regexpOfPath endpoint c rt)) = armed rt"
proof (cases "resolve_remotePath regexpOfPath endpoint c")
  case (Inl e)
  then show ?thesis by (simp add: handler_def)
next
  case (Inr url)
  define rt1 where "rt1 = rt\<lparr>armed := next_timer rt # armed rt, next_timer := Suc (next_timer rt)\<rparr>"
  define tb where
    "tb = try_block upstream endpoint (toLowerCase (ep_method endpoint)) url (next_timer rt) c rt1"
  have base: "removeAll (next_timer rt) (armed rt1) = armed rt"
    using removeAll_fresh[OF assms] by (simp add: rt1_def)
  have cleared: "removeAll (next_timer rt) (armed (snd tb)) = armed rt"
    unfolding tb_def using base by (simp only: try_block_armed)
  have pending: "fst tb = Pending \<Longrightarrow> armed (snd tb) = armed rt"
    unfolding tb_def using base by (simp only: try_block_pending)
  have "handler upstream regexpOfPath endpoint c rt = catch_finally (next_timer rt) c tb"
    by (simp add: handler_def Inr setTimeout_def tb_def rt1_def)
  then show ?thesis
    using cleared pending by (simp add: catch_finally_armed)
qed

lemma handler_next_timer:
  "next_timer rt \<le> next_timer (snd (handler upstream regexpOfPath endpoint c rt))"
  by (simp add: handler_def setTimeout_def catch_finally_next_timer try_block_next_timer
      split: sum.splits)

lemma handler_fresh:
  assumes "timers_fresh rt"
  shows "timers_fresh (snd (handler upstream regexpOfPath endpoint c rt))"
  using assms handler_next_timer[of rt upstream regexpOfPath endpoint c]
  by (fastforce simp: timers_fresh_def handler_armed[OF assms])

lemma dispatch_armed:
  "timers_fresh rt \<Longrightarrow>
   armed (snd (dispatch enforceAuth authConfig upstream regexpOfPath endpoint c rt)) = armed rt"
  by (simp add: dispatch_def handler_armed split: sum.splits)

lemma dispatch_fresh:
  "timers_fresh rt \<Longrightarrow>
   timers_fresh (snd (dispatch enforceAuth authConfig upstream regexpOfPath endpoint c rt))"
  by (simp add: dispatch_def handler_fresh split: sum.splits)

lemma serve_all_armed:
  "timers_fresh rt \<Longrightarrow> armed (serve_all enforceAuth authConfig upstream reqs rt) = armed rt"
proof (induction reqs arbitrary: rt)
  case Nil
  then show ?case by simp
next
  case (Cons q reqs)
  obtain l c where q: "q = (l, c)" by (cases q)
  let ?rt' = "snd (dispatch enforceAuth authConfig upstream (layer_regexp l) (layer_endpoint l) c rt)"
  have "timers_fresh ?rt'" using Cons.prems by (rule dispatch_fresh)
  then have "armed (serve_all enforceAuth authConfig upstream reqs ?rt') = armed ?rt'"
    by (rule Cons.IH)
  also have "\<dots> = armed rt" using Cons.prems by (rule dispatch_armed)
  finally show ?case by (simp add: q)
qed

section \<open>Evaluating the samples\<close>

text \<open>The defining equations of the samples and of the model, for running a request by
  simplification.\<close>

lemmas sample_defs = match_whole_def blank_ctx_def idle_def accept_with_def reject_with_def
  users_endpoint_def orders_endpoint_def signup_endpoint_def
  slow_upstream_def quick_upstream_def ok_response_def not_found_response_def

lemmas model_defs = dispatch_def handler_def catch_finally_def auth_middleware_def resolve_remotePath_def try_block_def relay_settled_def
  relay_def await_fetch_def setTimeout_def clearTimeout_def fire_def timeout_or_default_def res_ok_def
  signTokenData_of_def stripFromToken_of_def required_of_def body_rejected_def signJwtToken_def
  toLowerCase_def lower_char_def word_char_def replace_empty_def get_prop_def object_keys_def Let_def

section \<open>Path resolution with a state token\<close>

lemma resolve_state_token:
  assumes "regexpOfPath (request_url c) = Matched m groups"
      and "includes_js (path endpoint) '':_state_''"
      and "reForAttr_exec (path endpoint) = Some a"
  shows "resolve_remotePath regexpOfPath endpoint c =
           Inr (remoteLocation endpoint
                @ get_substitution (path endpoint) (to_string (get_prop (ctx_state c) a))
                @ path endpoint)"
  using assms by (simp add: resolve_remotePath_def replace_empty_def)

text \<open>
  Claim C1. With the template \<^verbatim>\<open>/users/:_state_userId\<close>, a matching request and
  \<^verbatim>\<open>userId = "42"\<close> in the request-scoped state, the spec expects the upstream URL
  \<^verbatim>\<open>remoteLocation + "/users/42"\<close>. The code replaces the empty pattern, so the value is
  put in front of the unchanged template: the resolved URL is
  \<^verbatim>\<open>remoteLocation + "42/users/:_state_userId"\<close>, which is not the expected one.
\<close>

theorem state_token_value_is_prepended:
  "resolve_remotePath match_whole users_endpoint
     (blank_ctx\<lparr>ctx_state := [(''userId'', Str ''42'')], request_url := ''/users/7''\<rparr>)
   = Inr (remoteLocation users_endpoint @ ''42/users/:_state_userId'')
   \<and> remoteLocation users_endpoint @ ''42/users/:_state_userId''
       \<noteq> remoteLocation users_endpoint @ ''/users/42''"
  by (simp add: resolve_remotePath_def match_whole_def users_endpoint_def blank_ctx_def
      word_char_def replace_empty_def get_prop_def)

section \<open>The auth stage\<close>

lemma auth_middleware_next_unchanged:
  "auth_middleware enforceAuth authConfig endpoint c = Inr c' \<Longrightarrow> c' = c"
  by (auto simp: auth_middleware_def split: if_splits sum.splits option.splits)

text \<open>
  Claim C2. The endpoint names the claim \<^verbatim>\<open>userId\<close> to strip and the authenticator succeeds
  with the claims \<^verbatim>\<open>{userId: "42"}\<close>; the spec expects the state to map \<^verbatim>\<open>userId\<close> to
  \<^verbatim>\<open>"42"\<close> afterwards. The middleware goes on with the context it was given: the state
  still has no \<^verbatim>\<open>userId\<close>.
\<close>

theorem stripped_claim_never_reaches_state:
  "auth_middleware (accept_with [(''userId'', Str ''42'')]) () users_endpoint blank_ctx = Inr blank_ctx
   \<and> stripFromToken_of users_endpoint = Some ''userId''
   \<and> get_prop (ctx_state blank_ctx) ''userId'' = Undefined"
  by (simp add: auth_middleware_def accept_with_def users_endpoint_def stripFromToken_of_def
      blank_ctx_def get_prop_def)

section \<open>The timeout\<close>

lemma await_fetch_outcome_ignores_delay:
  "\<not> fr_signal req \<Longrightarrow>
   fst (await_fetch upstream req h d rt) = fst (await_fetch upstream req h d' rt)"
  by (simp add: await_fetch_def Let_def split: upstream_reply.splits sum.splits)

text \<open>
  Claim C3. The orders endpoint has a timeout of 300 and its upstream settles after 1000
  milliseconds with status 200; the spec expects the call to be cancelled and the client
  to receive 500, with the failure published. The timer fires and \<^verbatim>\<open>controller.abort()\<close>
  runs once, but the call is not cancelled: the client receives the upstream's 200 and
  payload, and nothing is published.
\<close>

theorem slow_upstream_is_not_cut_off:
  "timeout_or_default orders_endpoint = 300
   \<and> dispatch (accept_with []) () (slow_upstream ok_response) match_whole orders_endpoint
       (blank_ctx\<lparr>request_url := ''/orders''\<rparr>) idle
     = (Returned (blank_ctx\<lparr>request_url := ''/orders'', ctx_status := 200,
                            ctx_body := Some (Arr [Num 1, Num 2, Num 3])\<rparr>),
        idle\<lparr>next_timer := 1, aborts := 1,
             calls := [\<lparr>fr_url = ''http://orders.internal/orders'', fr_method = ''GET'',
                        fr_body = None,
                        fr_headers = [(''Content-Type'', ''application/json'')],
                        fr_signal = False\<rparr>]\<rparr>)"
  by (simp add: sample_defs model_defs)

section \<open>The relay\<close>

lemma relay_non_ok:
  "\<not> res_ok r \<Longrightarrow>
   relay endpoint r c =
     Inr (if forwardError endpoint then c\<lparr>ctx_status := res_status r\<rparr>
          else c\<lparr>ctx_status := res_status r,
                 ctx_body := Some (Obj [(''status'', Str (res_statusText r)), (''text'', res_body r)])\<rparr>)"
  by (simp add: relay_def)

text \<open>
  Claim C6. The upstream answers 404 and the endpoint sets \<^verbatim>\<open>forwardError\<close>; the spec
  expects the upstream body to be passed through. The client status is 404, and the
  handler assigns no body at all.
\<close>

theorem forward_error_sets_no_body:
  "dispatch (accept_with []) () (quick_upstream not_found_response) match_whole
     (orders_endpoint\<lparr>forwardError := True\<rparr>) (blank_ctx\<lparr>request_url := ''/orders''\<rparr>) idle
   = (Returned (blank_ctx\<lparr>request_url := ''/orders'', ctx_status := 404, ctx_body := None\<rparr>),
      idle\<lparr>next_timer := 1,
           calls := [\<lparr>fr_url = ''http://orders.internal/orders'', fr_method = ''GET'',
                      fr_body = None,
                      fr_headers = [(''Content-Type'', ''application/json'')],
                      fr_signal = False\<rparr>]\<rparr>)"
  by (simp add: sample_defs model_defs)

lemma relay_ok_unsigned:
  "res_ok r \<Longrightarrow> \<not> signTokenData_of endpoint \<Longrightarrow>
   relay endpoint r c =
     (let data = (case res_json r of Some v \<Rightarrow> v | None \<Rightarrow> Str (res_text r)) in
      Inr (if truthy data then c\<lparr>ctx_status := res_status r, ctx_body := Some data\<rparr>
           else c\<lparr>ctx_status := res_status r\<rparr>))"
  by (simp add: relay_def Let_def)

text \<open>
  Claim C7. The upstream answers 200 and the endpoint sets \<^verbatim>\<open>auth.jwt.signTokenData\<close>; the
  spec expects the signed payload as the body and the upstream status. The call of
  \<^verbatim>\<open>signJwtToken\<close> throws inside the \<^verbatim>\<open>try\<close> block: the client receives 500 without a body,
  and the \<^verbatim>\<open>ReferenceError\<close> is published.
\<close>

theorem signed_response_ends_in_500:
  "dispatch (accept_with []) () (quick_upstream ok_response) match_whole
     (orders_endpoint\<lparr>auth := Some \<lparr>jwt = Some \<lparr>stripFromToken = None, signTokenData = True\<rparr>\<rparr>\<rparr>)
     (blank_ctx\<lparr>request_url := ''/orders''\<rparr>) idle
   = (Returned (blank_ctx\<lparr>request_url := ''/orders'', ctx_status := 500\<rparr>),
      idle\<lparr>next_timer := 1,
           calls := [\<lparr>fr_url = ''http://orders.internal/orders'', fr_method = ''GET'',
                      fr_body = None,
                      fr_headers = [(''Content-Type'', ''application/json'')],
                      fr_signal = False\<rparr>],
           published := [ReferenceError ''signJwtToken is not defined'']\<rparr>)"
  by (simp add: sample_defs model_defs)

section \<open>Body validation\<close>

lemma handler_calls:
  "resolve_remotePath regexpOfPath endpoint c = Inr url \<Longrightarrow>
   calls (snd (handler upstream regexpOfPath endpoint c rt)) =
     calls (snd (try_block upstream endpoint (toLowerCase (ep_method endpoint)) url (next_timer rt) c
               (snd (setTimeout rt))))"
  by (simp add: handler_def setTimeout_def catch_finally_calls)

lemma handler_rejects_body:
  assumes "toLowerCase (ep_method endpoint) \<in> {''post'', ''put'', ''patch''}"
      and "body_rejected endpoint c"
      and "resolve_remotePath regexpOfPath endpoint c = Inr url"
  shows "fst (handler upstream regexpOfPath endpoint c rt) =
           Returned (c\<lparr>ctx_status := 403,
                        ctx_body := Some (Str ''Request missing expected body parameters'')\<rparr>)
       \<and> calls (snd (handler upstream regexpOfPath endpoint c rt)) = calls rt
       \<and> published (snd (handler upstream regexpOfPath endpoint c rt)) = published rt"
  using assms
  by (auto simp: handler_def setTimeout_def catch_finally_def clearTimeout_def try_block_def Let_def)

lemma handler_forwards_body:
  assumes "toLowerCase (ep_method endpoint) \<in> {''post'', ''put'', ''patch''}"
      and "\<not> body_rejected endpoint c"
      and "resolve_remotePath regexpOfPath endpoint c = Inr url"
  shows "calls (snd (handler upstream regexpOfPath endpoint c rt)) =
           calls rt @ [\<lparr>fr_url = url, fr_method = ep_method endpoint,
                         fr_body = Some (request_body c),
                         fr_headers = [(''Content-Type'', ''application/json'')],
                         fr_signal = False\<rparr>]"
  using assms
  by (auto simp: handler_calls try_block_def Let_def relay_settled_snd await_fetch_calls setTimeout_def)

text \<open>
  Claim C4. For a post, put or patch endpoint with a \<^verbatim>\<open>body.required\<close> list, on a request
  whose path resolution succeeded: when fewer entries are satisfied by the request body
  than the list has, the handler answers 403 with the fixed message, issues no upstream
  call and publishes nothing; when all entries are satisfied, it issues the upstream
  call with the request body. Partial satisfaction never forwards.
\<close>

theorem body_validation_atomic:
  assumes "toLowerCase (ep_method endpoint) \<in> {''post'', ''put'', ''patch''}"
      and "required_of endpoint = Some requiredParams"
      and "resolve_remotePath regexpOfPath endpoint c = Inr url"
  shows "(length (filter (entry_satisfied (request_body c)) requiredParams) < length requiredParams \<longrightarrow>
            fst (handler upstream regexpOfPath endpoint c rt) =
              Returned (c\<lparr>ctx_status := 403,
                           ctx_body := Some (Str ''Request missing expected body parameters'')\<rparr>)
            \<and> calls (snd (handler upstream regexpOfPath endpoint c rt)) = calls rt
            \<and> published (snd (handler upstream regexpOfPath endpoint c rt)) = published rt)
       \<and> (length (filter (entry_satisfied (request_body c)) requiredParams) = length requiredParams \<longrightarrow>
            calls (snd (handler upstream regexpOfPath endpoint c rt)) =
              calls rt @ [\<lparr>fr_url = url, fr_method = ep_method endpoint,
                            fr_body = Some (request_body c),
                            fr_headers = [(''Content-Type'', ''application/json'')],
                            fr_signal = False\<rparr>])"
proof (intro conjI impI)
  assume less: "length (filter (entry_satisfied (request_body c)) requiredParams) < length requiredParams"
  then have rejected: "body_rejected endpoint c"
    using assms(2) by (simp add: body_rejected_iff)
  show "fst (handler upstream regexpOfPath endpoint c rt) =
          Returned (c\<lparr>ctx_status := 403,
                       ctx_body := Some (Str ''Request missing expected body parameters'')\<rparr>)"
    using handler_rejects_body[OF assms(1) rejected assms(3)] by blast
  show "calls (snd (handler upstream regexpOfPath endpoint c rt)) = calls rt"
    using handler_rejects_body[OF assms(1) rejected assms(3)] by blast
  show "published (snd (handler upstream regexpOfPath endpoint c rt)) = published rt"
    using handler_rejects_body[OF assms(1) rejected assms(3)] by blast
next
  assume "length (filter (entry_satisfied (request_body c)) requiredParams) = length requiredParams"
  then have forwarded: "\<not> body_rejected endpoint c"
    using assms(2) by (simp add: body_rejected_iff)
  show "calls (snd (handler upstream regexpOfPath endpoint c rt)) =
          calls rt @ [\<lparr>fr_url = url, fr_method = ep_method endpoint,
                        fr_body = Some (request_body c),
                        fr_headers = [(''Content-Type'', ''application/json'')],
                        fr_signal = False\<rparr>]"
    using assms(1) forwarded assms(3) by (rule handler_forwards_body)
qed

text \<open>The spec's example: \<^verbatim>\<open>required = [{name: "string"}, {age: null}]\<close>; the body
  \<^verbatim>\<open>{name: "Alice"}\<close> is answered 403 without a call, the body
  \<^verbatim>\<open>{name: "Alice", age: 30}\<close> is forwarded.\<close>

theorem body_validation_atomic_witness:
  "fst (handler (quick_upstream ok_response) match_whole signup_endpoint
          (blank_ctx\<lparr>request_url := ''/people'', request_body := [(''name'', Str ''Alice'')]\<rparr>) idle)
     = Returned (blank_ctx\<lparr>request_url := ''/people'', request_body := [(''name'', Str ''Alice'')],
                   ctx_status := 403,
                   ctx_body := Some (Str ''Request missing expected body parameters'')\<rparr>)
   \<and> calls (snd (handler (quick_upstream ok_response) match_whole signup_endpoint
          (blank_ctx\<lparr>request_url := ''/people'', request_body := [(''name'', Str ''Alice'')]\<rparr>) idle)) = []
   \<and> calls (snd (handler (quick_upstream ok_response) match_whole signup_endpoint
          (blank_ctx\<lparr>request_url := ''/people'',
                      request_body := [(''name'', Str ''Alice''), (''age'', Num 30)]\<rparr>) idle))
     = [\<lparr>fr_url = ''http://people.internal/people'', fr_method = ''POST'',
         fr_body = Some [(''name'', Str ''Alice''), (''age'', Num 30)],
         fr_headers = [(''Content-Type'', ''application/json'')], fr_signal = False\<rparr>]"
proof -
  let ?missing = "blank_ctx\<lparr>request_url := ''/people'', request_body := [(''name'', Str ''Alice'')]\<rparr>"
  let ?full = "blank_ctx\<lparr>request_url := ''/people'',
                 request_body := [(''name'', Str ''Alice''), (''age'', Num 30)]\<rparr>"
  let ?reqs = "[[(''name'', Str ''string'')], [(''age'', Null)]]"
  have m: "toLowerCase (ep_method signup_endpoint) \<in> {''post'', ''put'', ''patch''}"
    by (simp add: signup_endpoint_def toLowerCase_def lower_char_def)
  have r: "required_of signup_endpoint = Some ?reqs"
    by (simp add: signup_endpoint_def required_of_def)
  have u1: "resolve_remotePath match_whole signup_endpoint ?missing = Inr ''http://people.internal/people''"
    by (simp add: resolve_remotePath_def match_whole_def signup_endpoint_def blank_ctx_def)
  have u2: "resolve_remotePath match_whole signup_endpoint ?full = Inr ''http://people.internal/people''"
    by (simp add: resolve_remotePath_def match_whole_def signup_endpoint_def blank_ctx_def)
  have n1: "length (filter (entry_satisfied (request_body ?missing)) ?reqs) < length ?reqs"
    by (simp add: entry_satisfied_def blank_ctx_def get_prop_def)
  have n2: "length (filter (entry_satisfied (request_body ?full)) ?reqs) = length ?reqs"
    by (simp add: entry_satisfied_def blank_ctx_def get_prop_def)
  show ?thesis
    using body_validation_atomic[OF m r u1, of "quick_upstream ok_response" idle]
          body_validation_atomic[OF m r u2, of "quick_upstream ok_response" idle] n1 n2
    by (simp add: idle_def signup_endpoint_def blank_ctx_def)
qed

section \<open>Authentication failure\<close>

text \<open>
  Claim C5, as the code has it. When the endpoint has an auth requirement and the
  authenticator fails, the client response carries the authenticator's status; its body
  is the authenticator's message when that message is truthy, and the empty object
  otherwise; the second route function does not run, so the runtime is untouched: no
  upstream call, no timer, nothing published.
\<close>

theorem auth_failure_short_circuits:
  assumes "auth endpoint = Some a"
      and "enforceAuth c endpoint authConfig = Inl authError"
  shows "dispatch enforceAuth authConfig upstream regexpOfPath endpoint c rt =
           (Returned (c\<lparr>ctx_status := ae_status authError,
                         ctx_body := Some (if truthy (ae_message authError) then ae_message authError
                                           else Obj [])\<rparr>), rt)"
  using assms by (simp add: dispatch_def auth_middleware_def)

text \<open>A failure with status 401 and the message \<^verbatim>\<open>token expired\<close> is relayed as it is.\<close>

theorem auth_failure_short_circuits_witness:
  "dispatch (reject_with 401 (Str ''token expired'')) () (quick_upstream ok_response) match_whole
     users_endpoint blank_ctx idle
   = (Returned (blank_ctx\<lparr>ctx_status := 401, ctx_body := Some (Str ''token expired'')\<rparr>), idle)"
proof -
  have a: "auth users_endpoint = Some \<lparr>jwt = Some \<lparr>stripFromToken = Some ''userId'', signTokenData = False\<rparr>\<rparr>"
    by (simp add: users_endpoint_def)
  have e: "reject_with 401 (Str ''token expired'') blank_ctx users_endpoint ()
             = Inl \<lparr>ae_status = 401, ae_message = Str ''token expired''\<rparr>"
    by (simp add: reject_with_def)
  show ?thesis
    using auth_failure_short_circuits[where endpoint = users_endpoint and c = blank_ctx
        and enforceAuth = "reject_with 401 (Str ''token expired'')" and authConfig = "()"
        and upstream = "quick_upstream ok_response" and regexpOfPath = match_whole and rt = idle,
        OF a e]
    by simp
qed

text \<open>
  Claim C5 as the spec states it, with the message always as the body, fails for a
  failure whose message is the empty string: the body is the empty object.
\<close>

theorem auth_failure_empty_message_counterexample:
  "fst (dispatch (reject_with 401 (Str '''')) () (quick_upstream ok_response) match_whole
          users_endpoint blank_ctx idle)
     = Returned (blank_ctx\<lparr>ctx_status := 401, ctx_body := Some (Obj [])\<rparr>)
   \<and> fst (dispatch (reject_with 401 (Str '''')) () (quick_upstream ok_response) match_whole
          users_endpoint blank_ctx idle)
     \<noteq> Returned (blank_ctx\<lparr>ctx_status := 401, ctx_body := Some (Str '''')\<rparr>)"
  by (simp add: dispatch_def auth_middleware_def reject_with_def users_endpoint_def blank_ctx_def)

section \<open>Duplicate routes\<close>

lemma register_endpoint_accepts:
  "(\<exists>router'. register_endpoint pathToRegexp verbs e router = Inr router') \<longleftrightarrow>
   ((\<exists>re. pathToRegexp (path e) = Inr re) \<and> toLowerCase (ep_method e) \<in> set verbs)"
  by (cases "pathToRegexp (path e)") (simp_all add: register_endpoint_def Let_def)

lemma load_endpoints_accepts:
  "(\<exists>router'. load_endpoints pathToRegexp verbs endpoints router = Inr router') \<longleftrightarrow>
   (\<forall>e\<in>set endpoints. (\<exists>re. pathToRegexp (path e) = Inr re) \<and> toLowerCase (ep_method e) \<in> set verbs)"
proof (induction endpoints arbitrary: router)
  case Nil
  then show ?case by simp
next
  case (Cons e es)
  show ?case
  proof (cases "register_endpoint pathToRegexp verbs e router")
    case (Inl err)
    then have "\<not> (\<exists>router'. register_endpoint pathToRegexp verbs e router = Inr router')"
      by simp
    then have "\<not> ((\<exists>re. pathToRegexp (path e) = Inr re) \<and> toLowerCase (ep_method e) \<in> set verbs)"
      using register_endpoint_accepts by blast
    then show ?thesis using Inl by auto
  next
    case (Inr router1)
    then have "\<exists>router'. register_endpoint pathToRegexp verbs e router = Inr router'"
      by simp
    then have "(\<exists>re. pathToRegexp (path e) = Inr re) \<and> toLowerCase (ep_method e) \<in> set verbs"
      using register_endpoint_accepts by blast
    then show ?thesis using Inr Cons.IH[of router1] by auto
  qed
qed

lemma load_endpoints_layers:
  "load_endpoints pathToRegexp verbs endpoints router = Inr router' \<Longrightarrow>
   map layer_endpoint router' = map layer_endpoint router @ endpoints"
proof (induction endpoints arbitrary: router)
  case Nil
  then show ?case by simp
next
  case (Cons e es)
  then obtain router1 where r1: "register_endpoint pathToRegexp verbs e router = Inr router1"
    and rest: "load_endpoints pathToRegexp verbs es router1 = Inr router'"
    by (auto split: sum.splits)
  have "map layer_endpoint router1 = map layer_endpoint router @ [e]"
    using r1 by (auto simp: register_endpoint_def Let_def split: sum.splits if_splits)
  then show ?case using Cons.IH[OF rest] by simp
qed

text \<open>
  Claim C8, as the code has it. Loading the endpoints succeeds exactly when every path
  template compiles and every lower-cased method is a verb of the router; it then adds
  one layer per definition, in order. Nothing compares one definition with another.
\<close>

theorem load_endpoints_has_no_uniqueness_check:
  "((\<exists>router'. load_endpoints pathToRegexp verbs endpoints router = Inr router') \<longleftrightarrow>
    (\<forall>e\<in>set endpoints. (\<exists>re. pathToRegexp (path e) = Inr re) \<and> toLowerCase (ep_method e) \<in> set verbs))
   \<and> (\<forall>router'. load_endpoints pathToRegexp verbs endpoints router = Inr router' \<longrightarrow>
         map layer_endpoint router' = map layer_endpoint router @ endpoints)"
  using load_endpoints_accepts load_endpoints_layers by blast

text \<open>
  Claim C8 as the spec states it fails: two definitions with the same method and path
  are both registered, and the constructor does not fail.
\<close>

theorem duplicate_routes_accepted_counterexample:
  "toLowerCase (ep_method orders_endpoint) = toLowerCase (ep_method orders_twin)
   \<and> path orders_endpoint = path orders_twin
   \<and> load_endpoints compile_literal five_verbs [orders_endpoint, orders_twin] []
     = Inr [\<lparr>layer_name = ''orders'', layer_verb = ''get'', layer_path = ''/orders'',
              layer_regexp = (\<lambda>url. if url = ''/orders'' then Matched url [] else NoMatch),
              layer_endpoint = orders_endpoint\<rparr>,
            \<lparr>layer_name = ''orders-again'', layer_verb = ''get'', layer_path = ''/orders'',
              layer_regexp = (\<lambda>url. if url = ''/orders'' then Matched url [] else NoMatch),
              layer_endpoint = orders_twin\<rparr>]"
  by (simp add: register_endpoint_def compile_literal_def five_verbs_def orders_endpoint_def
      orders_twin_def toLowerCase_def lower_char_def Let_def)

text \<open>The list with the duplicate satisfies the condition, and both definitions are
  loaded.\<close>

theorem load_endpoints_has_no_uniqueness_check_witness:
  "(\<exists>router'. load_endpoints compile_literal five_verbs [orders_endpoint, orders_twin] [] = Inr router')
   \<and> map layer_endpoint (projr (load_endpoints compile_literal five_verbs [orders_endpoint, orders_twin] []))
       = [orders_endpoint, orders_twin]"
proof -
  have ok: "\<forall>e\<in>set [orders_endpoint, orders_twin].
              (\<exists>re. compile_literal (path e) = Inr re) \<and> toLowerCase (ep_method e) \<in> set five_verbs"
    by (simp add: compile_literal_def five_verbs_def orders_endpoint_def orders_twin_def
        toLowerCase_def lower_char_def)
  from load_endpoints_has_no_uniqueness_check[of compile_literal five_verbs "[orders_endpoint, orders_twin]" "[]"] ok
  show ?thesis by auto
qed

section \<open>A state token outside the users segment\<close>

text \<open>
  Claim C10. When the path template includes \<^verbatim>\<open>:_state_\<close> but has no segment of the form
  \<^verbatim>\<open>/users/:_state_<word>\<close>, and the request URL matches the compiled route, the handler
  throws a \<^verbatim>\<open>TypeError\<close> before its \<^verbatim>\<open>try\<close> block: no URL is resolved, no timer is
  armed, no call is issued, no status 500 is set and nothing is published. Whenever the
  auth middleware goes on to \<^verbatim>\<open>next\<close>, the error leaves both route functions.
\<close>

theorem state_token_without_users_segment_throws:
  assumes "includes_js (path endpoint) '':_state_''"
      and "\<not> has_users_state_segment (path endpoint)"
      and "regexpOfPath (request_url c) = Matched m groups"
  shows "handler upstream regexpOfPath endpoint c rt = (Threw (TypeError ''Cannot read properties of null''), rt)
       \<and> (\<not> isl (auth_middleware enforceAuth authConfig endpoint c) \<longrightarrow>
            dispatch enforceAuth authConfig upstream regexpOfPath endpoint c rt
              = (Threw (TypeError ''Cannot read properties of null''), rt))"
proof -
  have "reForAttr_exec (path endpoint) = None"
    using assms(2) reForAttr_exec_None_iff by blast
  then have "resolve_remotePath regexpOfPath endpoint c = Inl (TypeError ''Cannot read properties of null'')"
    using assms(1,3) by (simp add: resolve_remotePath_def)
  then have thrown: "handler upstream regexpOfPath endpoint c rt =
      (Threw (TypeError ''Cannot read properties of null''), rt)"
    by (simp add: handler_def)
  have "dispatch enforceAuth authConfig upstream regexpOfPath endpoint c rt =
      (Threw (TypeError ''Cannot read properties of null''), rt)"
    if "\<not> isl (auth_middleware enforceAuth authConfig endpoint c)"
  proof (cases "auth_middleware enforceAuth authConfig endpoint c")
    case (Inl answered)
    then show ?thesis using that by simp
  next
    case (Inr c')
    then have "c' = c" by (rule auth_middleware_next_unchanged)
    then show ?thesis using Inr thrown by (simp add: dispatch_def)
  qed
  then show ?thesis using thrown by blast
qed

text \<open>The template \<^verbatim>\<open>/orders/:_state_orderId\<close> on a request for \<^verbatim>\<open>/orders/7\<close>.\<close>

theorem state_token_without_users_segment_throws_witness:
  "dispatch (accept_with []) () (quick_upstream ok_response) match_whole state_orders_endpoint
     (blank_ctx\<lparr>request_url := ''/orders/7''\<rparr>) idle
   = (Threw (TypeError ''Cannot read properties of null''), idle)"
proof -
  have i: "includes_js (path state_orders_endpoint) '':_state_''"
    by (simp add: state_orders_endpoint_def)
  have "reForAttr_exec (path state_orders_endpoint) = None"
    by (simp add: state_orders_endpoint_def)
  then have n: "\<not> has_users_state_segment (path state_orders_endpoint)"
    using reForAttr_exec_None_iff by blast
  have m: "match_whole (request_url (blank_ctx\<lparr>request_url := ''/orders/7''\<rparr>)) = Matched ''/orders/7'' []"
    by (simp add: match_whole_def)
  have a: "\<not> isl (auth_middleware (accept_with []) () state_orders_endpoint
                    (blank_ctx\<lparr>request_url := ''/orders/7''\<rparr>))"
    by (simp add: auth_middleware_def state_orders_endpoint_def)
  show ?thesis
    using state_token_without_users_segment_throws[where endpoint = state_orders_endpoint
        and regexpOfPath = match_whole and c = "blank_ctx\<lparr>request_url := ''/orders/7''\<rparr>"
        and upstream = "quick_upstream ok_response" and rt = idle
        and enforceAuth = "accept_with []" and authConfig = "()", OF i n m] a
    by simp
qed

section \<open>The timer is never left armed\<close>

text \<open>
  Claim C9. Whatever the authenticator, the upstream, the route, the endpoint and the
  request are, a request leaves the armed timers as it found them: the timer it armed
  is cleared by the \<^verbatim>\<open>finally\<close> clause on a return from validation, after a relayed
  response and after a caught error, and it is not armed at all when the request ends
  before the forwarding stage. The same holds after any list of requests handled one
  after the other.
\<close>

theorem timer_disarmed_on_every_exit:
  assumes "timers_fresh rt"
  shows "armed (snd (dispatch enforceAuth authConfig upstream regexpOfPath endpoint c rt)) = armed rt
       \<and> armed (serve_all enforceAuth authConfig upstream reqs rt) = armed rt"
  using assms by (simp add: dispatch_armed serve_all_armed)

text \<open>
  A run of four requests from an idle runtime: a late success, a validation return, a
  relayed 404 and a refused connection. No timer remains armed.
\<close>

theorem timer_disarmed_on_every_exit_witness:
  "armed (snd (dispatch (accept_with []) () mixed_upstream match_whole orders_endpoint
                 (blank_ctx\<lparr>request_url := ''/orders''\<rparr>) idle)) = []
   \<and> armed (serve_all (accept_with []) () mixed_upstream
        [(route_of orders_endpoint, blank_ctx\<lparr>request_url := ''/orders''\<rparr>),
         (route_of signup_endpoint,
          blank_ctx\<lparr>request_url := ''/people'', request_body := [(''name'', Str ''Alice'')]\<rparr>),
         (route_of signup_endpoint,
          blank_ctx\<lparr>request_url := ''/people'',
                     request_body := [(''name'', Str ''Alice''), (''age'', Num 30)]\<rparr>),
         (route_of users_endpoint, blank_ctx\<lparr>request_url := ''/users/7''\<rparr>)] idle) = []"
proof -
  have f: "timers_fresh idle"
    by (simp add: timers_fresh_def idle_def)
  have e: "armed idle = []"
    by (simp add: idle_def)
  show ?thesis
    using timer_disarmed_on_every_exit[where rt = idle and enforceAuth = "accept_with []"
        and authConfig = "()" and upstream = mixed_upstream and regexpOfPath = match_whole
        and endpoint = orders_endpoint and c = "blank_ctx\<lparr>request_url := ''/orders''\<rparr>"
        and reqs = "[(route_of orders_endpoint, blank_ctx\<lparr>request_url := ''/orders''\<rparr>),
         (route_of signup_endpoint,
          blank_ctx\<lparr>request_url := ''/people'', request_body := [(''name'', Str ''Alice'')]\<rparr>),
         (route_of signup_endpoint,
          blank_ctx\<lparr>request_url := ''/people'',
                     request_body := [(''name'', Str ''Alice''), (''age'', Num 30)]\<rparr>),
         (route_of users_endpoint, blank_ctx\<lparr>request_url := ''/users/7''\<rparr>)]", OF f]
    unfolding e .
qed

end
